theory Spec2Isabelle
  imports Main "HOL-Library.AList"
begin

section \<open>Strings, integers and errors of the Python runtime\<close>

text \<open>
  The development embeds the class \<^verbatim>\<open>MetadataProcessor\<close> of the metadata editing
  tool (the Python file at the top of \<^verbatim>\<open>src/\<close>). A Python \<^verbatim>\<open>str\<close> is a
  \<^typ>\<open>string\<close>, one
  \<^typ>\<open>char\<close> per character for the ASCII identifiers the tool reads; the fixed
  Chinese literals of the source are written as their UTF-8 bytes. A spreadsheet cell is
  modelled by its text, so that \<^verbatim>\<open>astype(str)\<close> and \<^verbatim>\<open>str(...)\<close> are the
  identity and the \<^verbatim>\<open>time\<close> column is carried through as opaque text.
\<close>

datatype error =
    InvalidLiteral string          \<comment> \<open>\<^verbatim>\<open>ValueError\<close> of \<^verbatim>\<open>int(s)\<close>\<close>
  | KeyError string                \<comment> \<open>a missing dictionary key\<close>
  | IndexError                     \<comment> \<open>a list index out of range\<close>
  | MissingColumns                 \<comment> \<open>\<^verbatim>\<open>ValueError\<close>: a required column, MapIndex or time, is missing\<close>
  | FileNotFound                   \<comment> \<open>\<^verbatim>\<open>FileNotFoundError\<close>\<close>
  | InconsistentFieldLength        \<comment> \<open>\<^verbatim>\<open>ValueError\<close>: the data fields differ in length\<close>
  | DuplicateIdentifier            \<comment> \<open>\<^verbatim>\<open>ValueError\<close>: the cleaned file names contain duplicates\<close>
  | UnsupportedFormat string       \<comment> \<open>\<^verbatim>\<open>ValueError\<close>: unsupported output format\<close>
  | RuntimeError error             \<comment> \<open>\<^verbatim>\<open>raise RuntimeError(...) from e\<close>\<close>

text \<open>Sequencing of fallible steps: the first exception ends the computation.\<close>

definition bind_err :: "error + 'a \<Rightarrow> ('a \<Rightarrow> error + 'b) \<Rightarrow> error + 'b" where
  "bind_err m f = (case m of Inl e \<Rightarrow> Inl e | Inr x \<Rightarrow> f x)"

text \<open>A list comprehension whose element expression may raise.\<close>

fun map_err :: "('a \<Rightarrow> error + 'b) \<Rightarrow> 'a list \<Rightarrow> error + 'b list" where
  "map_err f [] = Inr []"
| "map_err f (x # xs) =
     (case f x of
        Inl e \<Rightarrow> Inl e
      | Inr y \<Rightarrow> (case map_err f xs of Inl e \<Rightarrow> Inl e | Inr ys \<Rightarrow> Inr (y # ys)))"

text \<open>The slice \<^verbatim>\<open>s[a:b]\<close> for \<open>0 \<le> a \<le> b\<close>; it never raises, it truncates.\<close>

definition slice :: "nat \<Rightarrow> nat \<Rightarrow> 'a list \<Rightarrow> 'a list" where
  "slice a b s = take (b - a) (drop a s)"

text \<open>
  \<^verbatim>\<open>int(s)\<close> on a string, base 10: ASCII white space is stripped from both ends, one
  sign is allowed, and the rest is a non-empty run of decimal digits in which single
  underscores may separate digits. Anything else is a \<^verbatim>\<open>ValueError\<close>.
\<close>

definition int_space :: "char \<Rightarrow> bool" where
  "int_space c = (c \<in> set [CHR 0x09, CHR 0x0A, CHR 0x0B, CHR 0x0C, CHR 0x0D, CHR 0x20])"

definition is_digit :: "char \<Rightarrow> bool" where
  "is_digit c = (c \<in> set ''0123456789'')"

definition digit_val :: "char \<Rightarrow> nat" where
  "digit_val c = of_char c - 48"

fun parse_digits :: "bool \<Rightarrow> nat \<Rightarrow> string \<Rightarrow> nat option" where
  "parse_digits prev acc [] = (if prev then Some acc else None)"
| "parse_digits prev acc (c # cs) =
     (if is_digit c then parse_digits True (acc * 10 + digit_val c) cs
      else if c = CHR ''_'' \<and> prev then parse_digits False acc cs
      else None)"

definition trim :: "(char \<Rightarrow> bool) \<Rightarrow> string \<Rightarrow> string" where
  "trim sp s = rev (dropWhile sp (rev (dropWhile sp s)))"

definition py_int :: "string \<Rightarrow> error + int" where
  "py_int s =
     (case trim int_space s of
        [] \<Rightarrow> Inl (InvalidLiteral s)
      | c # cs \<Rightarrow>
          if c = CHR ''-'' then
            (case parse_digits False 0 cs of
               None \<Rightarrow> Inl (InvalidLiteral s) | Some n \<Rightarrow> Inr (- int n))
          else if c = CHR ''+'' then
            (case parse_digits False 0 cs of
               None \<Rightarrow> Inl (InvalidLiteral s) | Some n \<Rightarrow> Inr (int n))
          else
            (case parse_digits False 0 (c # cs) of
               None \<Rightarrow> Inl (InvalidLiteral s) | Some n \<Rightarrow> Inr (int n)))"

text \<open>\<^verbatim>\<open>str(n)\<close> of an integer, as the f-strings of the source format it.\<close>

fun str_nat :: "nat \<Rightarrow> string" where
  "str_nat n =
     (if n < 10 then [''0123456789'' ! n]
      else str_nat (n div 10) @ [''0123456789'' ! (n mod 10)])"

declare str_nat.simps [simp del]

definition str_int :: "int \<Rightarrow> string" where
  "str_int i = (if i < 0 then CHR ''-'' # str_nat (nat (- i)) else str_nat (nat i))"

text \<open>
  The number of characters after the first decimal point of a string, when they are all
  digits: how many fractional digits a formatted number shows.
\<close>

definition fraction_digits :: "string \<Rightarrow> nat option" where
  "fraction_digits s =
     (case dropWhile (\<lambda>c. c \<noteq> CHR ''.'') s of
        [] \<Rightarrow> None
      | _ # ds \<Rightarrow> if list_all is_digit ds then Some (length ds) else None)"

text \<open>The literals of the source that are not ASCII, as UTF-8.\<close>

definition degree_sign :: string where
  "degree_sign = [CHR 0xC2, CHR 0xB0]"

definition connected :: string where
  "connected = [CHR 0xE5, CHR 0xB7, CHR 0xB2, CHR 0xE6, CHR 0x8E, CHR 0xA5]"

definition free_edge :: string where
  "free_edge = [CHR 0xE8, CHR 0x87, CHR 0xAA, CHR 0xE7, CHR 0x94, CHR 0xB1,
                CHR 0xE8, CHR 0xBE, CHR 0xB9]"

definition no_file :: string where
  "no_file = [CHR 0xE6, CHR 0x97, CHR 0xA0]"

definition title_prefix :: string where
  "title_prefix = [CHR 0xE6, CHR 0x96, CHR 0x87, CHR 0xE4, CHR 0xBB, CHR 0xB6, CHR 0x3A]"

definition data_missing :: string where
  "data_missing = [CHR 0xE6, CHR 0x95, CHR 0xB0, CHR 0xE6, CHR 0x8D, CHR 0xAE,
                   CHR 0xE4, CHR 0xB8, CHR 0x8D, CHR 0xE5, CHR 0xAD, CHR 0x98,
                   CHR 0xE5, CHR 0x9C, CHR 0xA8]"

section \<open>The metadata dictionary\<close>

text \<open>
  \<^verbatim>\<open>metadata_data : Dict[str, List]\<close> is an association list in insertion order;
  assigning to a key replaces the value in place or appends the key, as a Python
  dictionary does.
\<close>

type_synonym table = "(string \<times> string list) list"

definition lookup :: "table \<Rightarrow> string \<Rightarrow> error + string list" where
  "lookup md k = (case map_of md k of None \<Rightarrow> Inl (KeyError k) | Some v \<Rightarrow> Inr v)"

definition get_field :: "table \<Rightarrow> string \<Rightarrow> nat \<Rightarrow> string option" where
  "get_field md k i =
     (case map_of md k of
        None \<Rightarrow> None
      | Some v \<Rightarrow> if i < length v then Some (v ! i) else None)"

text \<open>\<^verbatim>\<open>dict.update\<close> with a dictionary literal: the keys are assigned in order.\<close>

fun update_all :: "table \<Rightarrow> table \<Rightarrow> table" where
  "update_all [] md = md"
| "update_all ((k, v) # kvs) md = update_all kvs (AList.update k v md)"

section \<open>Identifier Parser\<close>

text \<open>
  \<^verbatim>\<open>_extract_metadata\<close>, on the \<^verbatim>\<open>MapIndex\<close> column as strings and the
  \<^verbatim>\<open>time\<close> column. The dictionary literal is evaluated entry by entry, so the band
  numbers are parsed before the central meridians.
\<close>

definition extract_metadata :: "string list \<Rightarrow> string list \<Rightarrow> error + table" where
  "extract_metadata map_index time_vals =
     bind_err (map_err (\<lambda>s. py_int (slice 7 9 s)) map_index) (\<lambda>bands.
     bind_err (map_err py_int (map (slice 7 9) map_index)) (\<lambda>values.
       Inr [(''file_name'', map_index),
            (''row_number'', map (slice 0 4) map_index),
            (''column_number'', map (slice 7 12) map_index),
            (''band_number'', map (\<lambda>b. str_int b @ degree_sign) bands),
            (''central_meridian'', map (\<lambda>v. str_int (v * 3) @ degree_sign) values),
            (''flight_times'', time_vals)]))"


section \<open>Reading a spreadsheet\<close>

text \<open>
  A sheet is its list of rows, the first row holding the headers. The \<^verbatim>\<open>.xls\<close>
  branch of \<^verbatim>\<open>_process_excel\<close> finds the columns \<^verbatim>\<open>MapIndex\<close> and
  \<^verbatim>\<open>time\<close> with \<^verbatim>\<open>headers.index\<close> and reads them row by row; the other branch
  hands the file to \<^verbatim>\<open>pandas.read_excel\<close>, which names the columns by the first row
  as well. Both raise the same \<^verbatim>\<open>ValueError\<close> when one of the two columns is
  missing, and every exception leaves \<^verbatim>\<open>_process_excel\<close> wrapped in a
  \<^verbatim>\<open>RuntimeError\<close>. A file that does not exist is \<open>None\<close>.
\<close>

type_synonym sheet = "string list list"

fun index_of :: "'a \<Rightarrow> 'a list \<Rightarrow> nat option" where
  "index_of x [] = None"
| "index_of x (y # ys) =
     (if x = y then Some 0 else map_option Suc (index_of x ys))"

definition nth_err :: "'a list \<Rightarrow> nat \<Rightarrow> error + 'a" where
  "nth_err xs i = (if i < length xs then Inr (xs ! i) else Inl IndexError)"

definition read_columns :: "sheet \<Rightarrow> error + (string list \<times> string list)" where
  "read_columns sh =
     (case sh of
        [] \<Rightarrow> Inl IndexError
      | headers # rows \<Rightarrow>
          (case index_of ''MapIndex'' headers of
             None \<Rightarrow> Inl MissingColumns
           | Some map_index_idx \<Rightarrow>
               (case index_of ''time'' headers of
                  None \<Rightarrow> Inl MissingColumns
                | Some time_idx \<Rightarrow>
                    bind_err
                      (map_err (\<lambda>row.
                         bind_err (nth_err row map_index_idx) (\<lambda>m.
                         bind_err (nth_err row time_idx) (\<lambda>t. Inr (m, t)))) rows)
                      (\<lambda>cells. Inr (map fst cells, map snd cells)))))"

definition process_excel :: "sheet option \<Rightarrow> error + table" where
  "process_excel file =
     (case file of
        None \<Rightarrow> Inl (RuntimeError FileNotFound)
      | Some sh \<Rightarrow>
          (case bind_err (read_columns sh) (\<lambda>(map_index, time_vals).
                  extract_metadata map_index time_vals) of
             Inl e \<Rightarrow> Inl (RuntimeError e)
           | Inr data \<Rightarrow> Inr data))"

section \<open>The processor and its derivation steps\<close>

record processor =
  template_path :: string
  boundary_data :: table
  metadata_data :: table
  output_format :: string

text \<open>
  \<^verbatim>\<open>load_data\<close>, after \<^verbatim>\<open>__init__\<close>: \<open>suffix\<close> is the lower-case suffix of the
  target file's path.
\<close>

definition load_data :: "string \<Rightarrow> string \<Rightarrow> sheet option \<Rightarrow> sheet option \<Rightarrow> error + processor" where
  "load_data template suffix boundary_file target_file =
     bind_err (process_excel boundary_file) (\<lambda>bd.
     bind_err (process_excel target_file) (\<lambda>md.
       Inr \<lparr> template_path = template,
             boundary_data = bd,
             metadata_data = md,
             output_format = (if suffix \<in> set [''.xls'', ''.xlsx''] then suffix else ''.xlsx'') \<rparr>))"

text \<open>
  \<^verbatim>\<open>_add_tif_sizes\<close>: \<open>probe name\<close> is the formatted size of the file
  \<^verbatim>\<open>name.tif\<close> in the TIFF folder, or \<open>None\<close> when there is no such file.
\<close>

definition add_tif_sizes :: "(string \<Rightarrow> string option) \<Rightarrow> table \<Rightarrow> error + table" where
  "add_tif_sizes probe md =
     bind_err (lookup md ''file_name'') (\<lambda>names.
       Inr (AList.update ''tif_size''
              (map (\<lambda>name. case probe name of Some size_mb \<Rightarrow> size_mb | None \<Rightarrow> data_missing) names)
              md))"

text \<open>\<^verbatim>\<open>_generate_coordinates\<close> (Coordinate Deriver).\<close>

definition generate_coordinates :: "table \<Rightarrow> error + table" where
  "generate_coordinates coord_data =
     bind_err (lookup coord_data ''row_number'') (\<lambda>rs.
     bind_err (map_err py_int rs) (\<lambda>row.
     bind_err (lookup coord_data ''column_number'') (\<lambda>cs.
     bind_err (map_err py_int cs) (\<lambda>col.
     bind_err (lookup coord_data ''file_name'') (\<lambda>names.
       Inr (update_all
              [(''WS_X'', map (\<lambda>r. str_int (r * 1000) @ ''.00'') row),
               (''WS_Y'', map (\<lambda>c. str_int (c * 1000) @ ''.00'') col),
               (''WN_X'', map (\<lambda>r. str_int ((r + 1) * 1000) @ ''.00'') row),
               (''WN_Y'', map (\<lambda>c. str_int (c * 1000) @ ''.00'') col),
               (''EN_X'', map (\<lambda>r. str_int ((r + 1) * 1000) @ ''.00'') row),
               (''EN_Y'', map (\<lambda>c. str_int ((c + 1) * 1000) @ ''.00'') col),
               (''ES_X'', map (\<lambda>r. str_int (r * 1000) @ ''.00'') row),
               (''ES_Y'', map (\<lambda>c. str_int ((c + 1) * 1000) @ ''.00'') col),
               (''filename'', map (\<lambda>name. title_prefix @ name) names)]
              coord_data))))))"

section \<open>Boundary Index and Adjacency Resolver\<close>

text \<open>\<^verbatim>\<open>_get_boundary_coordinates\<close>.\<close>

definition get_boundary_coordinates :: "table \<Rightarrow> error + (int \<times> int) set" where
  "get_boundary_coordinates bd =
     bind_err (lookup bd ''row_number'') (\<lambda>rs.
     bind_err (map_err py_int rs) (\<lambda>row.
     bind_err (lookup bd ''column_number'') (\<lambda>cs.
     bind_err (map_err py_int cs) (\<lambda>col.
       Inr (set (zip row col))))))"

text \<open>\<^verbatim>\<open>_generate_filename\<close>: the f-string \<^verbatim>\<open>f"{r}.0-{c}.0"\<close>.\<close>

definition generate_filename :: "int \<Rightarrow> int \<Rightarrow> string" where
  "generate_filename r c = str_int r @ ''.0-'' @ str_int c @ ''.0''"

text \<open>
  The comprehension \<^verbatim>\<open>target_coord\<close>, which both connection passes build for an
  offset \<open>(dr, dc)\<close>.
\<close>

definition target_coord :: "table \<Rightarrow> int \<times> int \<Rightarrow> error + (int \<times> int) list" where
  "target_coord md d =
     bind_err (lookup md ''row_number'') (\<lambda>rs.
     bind_err (lookup md ''column_number'') (\<lambda>cs.
       map_err (\<lambda>(r, c).
          bind_err (py_int r) (\<lambda>r'.
          bind_err (py_int c) (\<lambda>c'. Inr (r' + fst d, c' + snd d))))
        (zip rs cs)))"

text \<open>A \<^verbatim>\<open>for\<close> loop over a list whose body may raise.\<close>

fun fold_err :: "('a \<Rightarrow> 's \<Rightarrow> error + 's) \<Rightarrow> 'a list \<Rightarrow> 's \<Rightarrow> error + 's" where
  "fold_err f [] s = Inr s"
| "fold_err f (x # xs) s = (case f x s of Inl e \<Rightarrow> Inl e | Inr s' \<Rightarrow> fold_err f xs s')"

definition directions :: "(string \<times> int \<times> int) list" where
  "directions = [(''N'', (1, 0)), (''S'', (-1, 0)), (''E'', (0, 1)), (''W'', (0, -1))]"

definition diagonals :: "(string \<times> int \<times> int) list" where
  "diagonals = [(''WN'', (1, -1)), (''EN'', (1, 1)), (''WS'', (-1, -1)), (''ES'', (-1, 1))]"

definition link_of :: "(int \<times> int) set \<Rightarrow> int \<times> int \<Rightarrow> string" where
  "link_of boundary coord = (if coord \<in> boundary then connected else free_edge)"

definition neighbour_of :: "(int \<times> int) set \<Rightarrow> int \<times> int \<Rightarrow> string" where
  "neighbour_of boundary coord =
     (if coord \<in> boundary then generate_filename (fst coord) (snd coord) else no_file)"

text \<open>The body of the loop of \<^verbatim>\<open>_process_directional_connections\<close>.\<close>

definition directional_step :: "(int \<times> int) set \<Rightarrow> string \<times> int \<times> int \<Rightarrow> table \<Rightarrow> error + table" where
  "directional_step boundary dir md =
     bind_err (target_coord md (snd dir)) (\<lambda>tc.
       Inr (AList.update (''filename_'' @ fst dir) (map (neighbour_of boundary) tc)
           (AList.update (''Link_'' @ fst dir) (map (link_of boundary) tc) md)))"

definition process_directional_connections :: "(int \<times> int) set \<Rightarrow> table \<Rightarrow> error + table" where
  "process_directional_connections boundary md = fold_err (directional_step boundary) directions md"

text \<open>The body of the loop of \<^verbatim>\<open>_process_diagonal_connections\<close>.\<close>

definition diagonal_step :: "(int \<times> int) set \<Rightarrow> string \<times> int \<times> int \<Rightarrow> table \<Rightarrow> error + table" where
  "diagonal_step boundary dir md =
     bind_err (target_coord md (snd dir)) (\<lambda>tc.
       Inr (AList.update (''filename_'' @ fst dir) (map (neighbour_of boundary) tc) md))"

definition process_diagonal_connections :: "(int \<times> int) set \<Rightarrow> table \<Rightarrow> error + table" where
  "process_diagonal_connections boundary md = fold_err (diagonal_step boundary) diagonals md"

text \<open>\<^verbatim>\<open>_process_boundary_connections\<close>.\<close>

definition process_boundary_connections :: "table \<Rightarrow> table \<Rightarrow> error + table" where
  "process_boundary_connections bd md =
     bind_err (get_boundary_coordinates bd) (\<lambda>boundary_coord.
     bind_err (process_directional_connections boundary_coord md) (\<lambda>md'.
       process_diagonal_connections boundary_coord md'))"

section \<open>Record Validator and output\<close>

text \<open>\<^verbatim>\<open>_validate_data_consistency\<close>.\<close>

definition validate_data_consistency :: "table \<Rightarrow> error + unit" where
  "validate_data_consistency md =
     (if card (set (map (\<lambda>(k, v). length v) md)) > 1 then Inl InconsistentFieldLength
      else bind_err (lookup md ''file_name'') (\<lambda>names.
        if length names \<noteq> card (set names) then Inl DuplicateIdentifier else Inr ()))"

text \<open>
  The output name of \<^verbatim>\<open>_generate_single_file\<close>: the substitution of the regular
  expression over the characters \<^verbatim>\<open>\ / * ? : " < > |\<close>, then \<^verbatim>\<open>strip()\<close>.
\<close>

definition unsafe_chars :: "char list" where
  "unsafe_chars = [CHR 0x5C, CHR ''/'', CHR ''*'', CHR ''?'', CHR '':'', CHR 0x22,
                   CHR ''<'', CHR ''>'', CHR ''|'']"

definition strip_space :: "char \<Rightarrow> bool" where
  "strip_space c = (c \<in> set [CHR 0x09, CHR 0x0A, CHR 0x0B, CHR 0x0C, CHR 0x0D,
                               CHR 0x1C, CHR 0x1D, CHR 0x1E, CHR 0x1F, CHR 0x20])"

definition safe_name :: "string \<Rightarrow> string" where
  "safe_name orig_name =
     trim strip_space (map (\<lambda>c. if c \<in> set unsafe_chars then CHR ''_'' else c) orig_name)"

text \<open>
  A workbook is the text of its cells by address; the file system holds the directories
  made and the workbooks by path.
\<close>

type_synonym workbook = "(string \<times> string) list"

record filesystem =
  dirs :: "string list"
  files :: "(string \<times> workbook) list"

definition mapping :: "(string \<times> string) list" where
  "mapping =
     [(''filename'', ''A1''), (''file_name'', ''C8''), (''tif_size'', ''C17''),
      (''WS_X'', ''C20''), (''WS_Y'', ''C21''), (''WN_X'', ''C22''), (''WN_Y'', ''C23''),
      (''EN_X'', ''C24''), (''EN_Y'', ''C25''), (''ES_X'', ''C26''), (''ES_Y'', ''C27''),
      (''Link_W'', ''C41''), (''Link_N'', ''C42''), (''Link_E'', ''C43''), (''Link_S'', ''C44''),
      (''filename_WN'', ''C45''), (''filename_N'', ''C46''), (''filename_EN'', ''C47''),
      (''filename_W'', ''C48''), (''filename_E'', ''C49''), (''filename_WS'', ''C50''),
      (''filename_S'', ''C51''), (''filename_ES'', ''C52''),
      (''band_number'', ''C37''), (''central_meridian'', ''C35''), (''flight_times'', ''C68'')]"

text \<open>
  \<^verbatim>\<open>current_data\<close> of \<^verbatim>\<open>_write_xlsx\<close> and \<^verbatim>\<open>_write_xls\<close>: the value of every
  field at the tile's index. (The key \<^verbatim>\<open>original_filename\<close> the source adds is in no
  entry of the mapping.)
\<close>

definition current_data :: "table \<Rightarrow> nat \<Rightarrow> error + (string \<times> string) list" where
  "current_data md index =
     map_err (\<lambda>(k, v). bind_err (nth_err v index) (\<lambda>x. Inr (k, x))) md"

definition write_cells :: "(string \<times> string) list \<Rightarrow> workbook \<Rightarrow> workbook" where
  "write_cells cur ws =
     fold (\<lambda>(field, cell) ws'.
             case map_of cur field of None \<Rightarrow> ws' | Some x \<Rightarrow> AList.update cell x ws')
          mapping ws"

text \<open>\<^verbatim>\<open>os.path.join\<close> of two components, as on a POSIX system.\<close>

definition path_join :: "string \<Rightarrow> string \<Rightarrow> string" where
  "path_join a b =
     (if b \<noteq> [] \<and> hd b = CHR ''/'' then b
      else if a = [] \<or> last a = CHR ''/'' then a @ b
      else a @ ''/'' @ b)"

text \<open>
  \<^verbatim>\<open>_generate_single_file\<close>: the template is copied to the output path, then the
  copy is filled in. An exception is printed and raised again, so what was written stays.
\<close>

definition generate_single_file ::
  "processor \<Rightarrow> nat \<Rightarrow> string \<Rightarrow> string \<Rightarrow> filesystem \<Rightarrow> error option \<times> filesystem" where
  "generate_single_file p index orig_name output_dir fs =
     (let output_path = path_join output_dir (safe_name orig_name @ output_format p) in
      case map_of (files fs) (template_path p) of
        None \<Rightarrow> (Some FileNotFound, fs)
      | Some template \<Rightarrow>
          (let fs1 = fs\<lparr>files := AList.update output_path template (files fs)\<rparr> in
           if output_format p = ''.xlsx'' \<or> output_format p = ''.xls'' then
             (case current_data (metadata_data p) index of
                Inl e \<Rightarrow> (Some e, fs1)
              | Inr cur \<Rightarrow>
                  (None, fs\<lparr>files := AList.update output_path (write_cells cur template) (files fs)\<rparr>))
           else (Some (UnsupportedFormat (output_format p)), fs1)))"

fun write_files ::
  "processor \<Rightarrow> string \<Rightarrow> (nat \<times> string) list \<Rightarrow> filesystem \<Rightarrow> error option \<times> filesystem" where
  "write_files p output_dir [] fs = (None, fs)"
| "write_files p output_dir ((idx, orig_name) # rest) fs =
     (case generate_single_file p idx orig_name output_dir fs of
        (Some e, fs') \<Rightarrow> (Some e, fs')
      | (None, fs') \<Rightarrow> write_files p output_dir rest fs')"

text \<open>\<^verbatim>\<open>_generate_output\<close>: validation, then the directory, then one file per tile.\<close>

definition generate_output :: "processor \<Rightarrow> string \<Rightarrow> filesystem \<Rightarrow> error option \<times> filesystem" where
  "generate_output p output_dir fs =
     (case validate_data_consistency (metadata_data p) of
        Inl e \<Rightarrow> (Some e, fs)
      | Inr _ \<Rightarrow>
          (let fs1 = fs\<lparr>dirs := List.insert output_dir (dirs fs)\<rparr> in
           case lookup (metadata_data p) ''file_name'' of
             Inl e \<Rightarrow> (Some e, fs1)
           | Inr names \<Rightarrow> write_files p output_dir (zip [0..<length names] names) fs1))"

text \<open>
  \<^verbatim>\<open>generate_metadata\<close>: the three derivation steps, then the output. The caller drops
  the processor after the run, so only the file system is returned.
\<close>

definition derive_fields :: "(string \<Rightarrow> string option) \<Rightarrow> processor \<Rightarrow> error + table" where
  "derive_fields probe p =
     bind_err (add_tif_sizes probe (metadata_data p)) (\<lambda>md1.
     bind_err (generate_coordinates md1) (\<lambda>md2.
       process_boundary_connections (boundary_data p) md2))"

definition generate_metadata ::
  "processor \<Rightarrow> (string \<Rightarrow> string option) \<Rightarrow> string \<Rightarrow> filesystem \<Rightarrow> error option \<times> filesystem" where
  "generate_metadata p probe output_dir fs =
     (case derive_fields probe p of
        Inl e \<Rightarrow> (Some e, fs)
      | Inr md \<Rightarrow> generate_output (p\<lparr>metadata_data := md\<rparr>) output_dir fs)"

section \<open>Basic facts about the error plumbing\<close>

lemma bind_err_Inr [simp]: "bind_err (Inr x) f = f x"
  by (simp add: bind_err_def)

lemma bind_err_Inl [simp]: "bind_err (Inl e) f = Inl e"
  by (simp add: bind_err_def)

lemma bind_err_eq_Inr:
  "bind_err m f = Inr y \<longleftrightarrow> (\<exists>x. m = Inr x \<and> f x = Inr y)"
  by (cases m) simp_all

lemma map_err_Inr:
  "map_err f xs = Inr ys \<Longrightarrow> length ys = length xs \<and> (\<forall>i<length xs. f (xs ! i) = Inr (ys ! i))"
proof (induction xs arbitrary: ys)
  case Nil
  then show ?case by simp
next
  case (Cons x xs)
  from Cons.prems obtain y zs where y: "f x = Inr y" and zs: "map_err f xs = Inr zs"
    and ys: "ys = y # zs"
    by (auto split: sum.splits)
  from Cons.IH [OF zs] have len: "length zs = length xs"
    and nth: "\<forall>i<length xs. f (xs ! i) = Inr (zs ! i)" by simp_all
  show ?case
  proof (intro conjI allI impI)
    show "length ys = length (x # xs)" using len ys by simp
  next
    fix i assume "i < length (x # xs)"
    then show "f ((x # xs) ! i) = Inr (ys ! i)"
      using y nth ys by (cases i) simp_all
  qed
qed

lemma map_err_total:
  "\<forall>x\<in>set xs. \<exists>y. f x = Inr y \<Longrightarrow> \<exists>ys. map_err f xs = Inr ys"
  by (induction xs) auto

lemma map_err_map: "map_err f (map g xs) = map_err (\<lambda>x. f (g x)) xs"
  by (induction xs) (simp_all split: sum.splits)

lemma map_err_failure:
  "x \<in> set xs \<Longrightarrow> f x = Inl e \<Longrightarrow> \<exists>e'. map_err f xs = Inl e'"
  by (induction xs) (auto split: sum.splits)

lemma py_int_51: "py_int ''51'' = Inr 51"
  by (simp add: py_int_def trim_def int_space_def is_digit_def digit_val_def)

section \<open>Identifier Parser: band and meridian\<close>

text \<open>
  C7. When the characters at offsets 7 and 8 of every identifier parse as an integer,
  \<^verbatim>\<open>_extract_metadata\<close> returns, and for the tile at index \<open>i\<close> the band number is
  the integer \<open>b\<close> read from the characters \<open>[7,9)\<close>, the central meridian is
  \<open>b * 3\<close> (both written in decimal, followed by the degree sign), the row field is
  the characters \<open>[0,4)\<close> and the column field the characters \<open>[7,12)\<close>.
\<close>

theorem extract_metadata_band_meridian:
  assumes valid: "\<forall>s\<in>set map_index. \<exists>b. py_int (slice 7 9 s) = Inr b"
    and i: "i < length map_index"
  shows "\<exists>md b. extract_metadata map_index time_vals = Inr md
           \<and> py_int (slice 7 9 (map_index ! i)) = Inr b
           \<and> get_field md ''band_number'' i = Some (str_int b @ degree_sign)
           \<and> get_field md ''central_meridian'' i = Some (str_int (b * 3) @ degree_sign)
           \<and> get_field md ''row_number'' i = Some (slice 0 4 (map_index ! i))
           \<and> get_field md ''column_number'' i = Some (slice 7 12 (map_index ! i))"
proof -
  from map_err_total [OF valid] obtain bands
    where bands: "map_err (\<lambda>s. py_int (slice 7 9 s)) map_index = Inr bands" by blast
  from map_err_Inr [OF bands] i
  have len: "length bands = length map_index"
    and b: "py_int (slice 7 9 (map_index ! i)) = Inr (bands ! i)" by simp_all
  have "extract_metadata map_index time_vals =
      Inr [(''file_name'', map_index),
           (''row_number'', map (slice 0 4) map_index),
           (''column_number'', map (slice 7 12) map_index),
           (''band_number'', map (\<lambda>b. str_int b @ degree_sign) bands),
           (''central_meridian'', map (\<lambda>v. str_int (v * 3) @ degree_sign) bands),
           (''flight_times'', time_vals)]"
    by (simp add: extract_metadata_def map_err_map bands)
  then show ?thesis
    using b i len by (simp add: get_field_def)
qed

theorem extract_metadata_band_meridian_witness:
  "\<exists>md. extract_metadata [''001200051000''] [''t''] = Inr md
     \<and> get_field md ''band_number'' 0 = Some (''51'' @ degree_sign)
     \<and> get_field md ''central_meridian'' 0 = Some (''153'' @ degree_sign)
     \<and> get_field md ''row_number'' 0 = Some ''0012''
     \<and> get_field md ''column_number'' 0 = Some ''51000''"
  using extract_metadata_band_meridian [of "[''001200051000'']" 0 "[''t'']"]
  by (simp add: slice_def py_int_51 str_int_def str_nat.simps)

section \<open>Auxiliary facts\<close>

lemma map_err_Inl:
  "map_err f xs = Inl e \<Longrightarrow> \<exists>x\<in>set xs. f x = Inl e"
  by (induction xs) (auto split: sum.splits)

lemma py_int_Inl: "py_int s = Inl e \<Longrightarrow> e = InvalidLiteral s"
  by (auto simp: py_int_def split: list.splits if_splits option.splits)

lemma py_int_empty: "py_int [] = Inl (InvalidLiteral [])"
  by (simp add: py_int_def trim_def)

lemma extract_metadata_unfold:
  "extract_metadata map_index time_vals =
     (case map_err (\<lambda>s. py_int (slice 7 9 s)) map_index of
        Inl e \<Rightarrow> Inl e
      | Inr bands \<Rightarrow>
          Inr [(''file_name'', map_index),
               (''row_number'', map (slice 0 4) map_index),
               (''column_number'', map (slice 7 12) map_index),
               (''band_number'', map (\<lambda>b. str_int b @ degree_sign) bands),
               (''central_meridian'', map (\<lambda>v. str_int (v * 3) @ degree_sign) bands),
               (''flight_times'', time_vals)])"
  by (simp add: extract_metadata_def map_err_map split: sum.splits)

lemma py_int_0012: "py_int ''0012'' = Inr 12"
  by (simp add: py_int_def trim_def int_space_def is_digit_def digit_val_def)

lemma py_int_34: "py_int ''34'' = Inr 34"
  by (simp add: py_int_def trim_def int_space_def is_digit_def digit_val_def)

lemma py_int_0013: "py_int ''0013'' = Inr 13"
  by (simp add: py_int_def trim_def int_space_def is_digit_def digit_val_def)

lemma py_int_51000: "py_int ''51000'' = Inr 51000"
  by (simp add: py_int_def trim_def int_space_def is_digit_def digit_val_def)


lemma digit_nth: "k < 10 \<Longrightarrow> ''0123456789'' ! k \<in> set ''0123456789''"
  by (rule nth_mem) simp

lemma str_nat_digits: "set (str_nat n) \<subseteq> set ''0123456789''"
proof (induction n rule: str_nat.induct)
  case (1 n)
  show ?case
  proof (cases "n < 10")
    case True
    then show ?thesis
      using digit_nth [of n] by (subst str_nat.simps) simp
  next
    case False
    have "n mod 10 < 10" by simp
    from digit_nth [OF this] 1 [OF False] False show ?thesis
      by (subst str_nat.simps) simp
  qed
qed

lemma str_int_no_point: "CHR ''.'' \<notin> set (str_int n)"
  using str_nat_digits [of "nat n"] str_nat_digits [of "nat (- n)"]
  by (auto simp: str_int_def)

lemma fraction_digits_two: "fraction_digits (str_int n @ ''.00'') = Some 2"
proof -
  have "dropWhile (\<lambda>c. c \<noteq> CHR ''.'') (str_int n @ ''.00'') = ''.00''"
    using str_int_no_point [of n] by (simp add: dropWhile_append)
  then show ?thesis by (simp add: fraction_digits_def is_digit_def)
qed



text \<open>
  The guard of \<^verbatim>\<open>_process_excel\<close>: a sheet whose header row has no
  \<^verbatim>\<open>time\<close> column is rejected, whatever else it holds.
\<close>

lemma missing_time_column:
  "index_of ''time'' headers = None \<Longrightarrow>
   process_excel (Some (headers # rows)) = Inl (RuntimeError MissingColumns)"
  by (simp add: process_excel_def read_columns_def split: option.splits)

section \<open>Identifier Parser: short identifiers\<close>

text \<open>
  C5, as the claim states it, fails: the parser has no length check, and the identifier
  \<open>001200051\<close> of nine characters is accepted, its column field being the two
  characters that are left from offset 7 on.
\<close>

theorem short_identifier_counterexample:
  "length ''001200051'' < 12 \<and>
   extract_metadata [''001200051''] [''t''] =
     Inr [(''file_name'', [''001200051'']),
          (''row_number'', [''0012'']),
          (''column_number'', [''51'']),
          (''band_number'', [''51'' @ degree_sign]),
          (''central_meridian'', [''153'' @ degree_sign]),
          (''flight_times'', [''t''])]"
  by (simp add: extract_metadata_unfold slice_def py_int_51 str_int_def str_nat.simps)

text \<open>
  C5, amended. An identifier of at most seven characters has an empty slice \<open>[7,9)\<close>,
  on which \<^verbatim>\<open>int\<close> raises \<^verbatim>\<open>ValueError\<close>: \<^verbatim>\<open>_extract_metadata\<close> then
  returns no record at all, and \<^verbatim>\<open>_process_excel\<close> fails for the whole file with a
  \<^verbatim>\<open>RuntimeError\<close> that wraps it. There is no check of the length: when the
  characters at offsets \<open>[7,9)\<close> of every identifier parse as an integer, the file is
  loaded without error whatever the lengths of the identifiers are, and the row and
  column fields are the slices \<open>[0,4)\<close> and \<open>[7,12)\<close>, truncated where the
  identifier ends.
\<close>

theorem short_identifier_aborts_batch:
  assumes cols: "read_columns sh = Inr (map_index, time_vals)"
  shows "((\<exists>s\<in>set map_index. length s \<le> 7) \<longrightarrow>
            (\<exists>t. extract_metadata map_index time_vals = Inl (InvalidLiteral t)
               \<and> process_excel (Some sh) = Inl (RuntimeError (InvalidLiteral t))))
       \<and> ((\<forall>s\<in>set map_index. \<exists>b. py_int (slice 7 9 s) = Inr b) \<longrightarrow>
            (\<exists>md. extract_metadata map_index time_vals = Inr md
               \<and> process_excel (Some sh) = Inr md
               \<and> map_of md ''file_name'' = Some map_index
               \<and> map_of md ''row_number'' = Some (map (slice 0 4) map_index)
               \<and> map_of md ''column_number'' = Some (map (slice 7 12) map_index)))"
proof (intro conjI impI)
  assume "\<exists>s\<in>set map_index. length s \<le> 7"
  then obtain s where s: "s \<in> set map_index" and short: "length s \<le> 7" by blast
  have "py_int (slice 7 9 s) = Inl (InvalidLiteral [])"
    using short by (simp add: slice_def py_int_empty)
  from map_err_failure [where f = "\<lambda>s. py_int (slice 7 9 s)", OF s this]
  obtain e where e: "map_err (\<lambda>s. py_int (slice 7 9 s)) map_index = Inl e" by blast
  from map_err_Inl [OF e] obtain x where "py_int (slice 7 9 x) = Inl e" by blast
  then have "e = InvalidLiteral (slice 7 9 x)" by (rule py_int_Inl)
  with e have "extract_metadata map_index time_vals = Inl (InvalidLiteral (slice 7 9 x))"
    by (simp add: extract_metadata_unfold)
  with cols show "\<exists>t. extract_metadata map_index time_vals = Inl (InvalidLiteral t)
               \<and> process_excel (Some sh) = Inl (RuntimeError (InvalidLiteral t))"
    by (simp add: process_excel_def)
next
  assume "\<forall>s\<in>set map_index. \<exists>b. py_int (slice 7 9 s) = Inr b"
  from map_err_total [OF this] obtain bands
    where bands: "map_err (\<lambda>s. py_int (slice 7 9 s)) map_index = Inr bands" by blast
  with cols show "\<exists>md. extract_metadata map_index time_vals = Inr md
               \<and> process_excel (Some sh) = Inr md
               \<and> map_of md ''file_name'' = Some map_index
               \<and> map_of md ''row_number'' = Some (map (slice 0 4) map_index)
               \<and> map_of md ''column_number'' = Some (map (slice 7 12) map_index)"
    by (simp add: extract_metadata_unfold process_excel_def)
qed

theorem short_identifier_aborts_batch_witness:
  "(\<exists>t. extract_metadata [''001200051000'', ''0012000''] [''t1'', ''t2''] = Inl (InvalidLiteral t)
     \<and> process_excel (Some [[''MapIndex'', ''time''], [''001200051000'', ''t1''], [''0012000'', ''t2'']])
         = Inl (RuntimeError (InvalidLiteral t)))
   \<and> (\<exists>md. extract_metadata [''001200051000'', ''001200051''] [''t1'', ''t2''] = Inr md
     \<and> process_excel (Some [[''MapIndex'', ''time''], [''001200051000'', ''t1''], [''001200051'', ''t2'']])
         = Inr md
     \<and> map_of md ''file_name'' = Some [''001200051000'', ''001200051'']
     \<and> map_of md ''row_number'' = Some [''0012'', ''0012'']
     \<and> map_of md ''column_number'' = Some [''51000'', ''51''])"
  using short_identifier_aborts_batch
    [of "[[''MapIndex'', ''time''], [''001200051000'', ''t1''], [''0012000'', ''t2'']]"
        "[''001200051000'', ''0012000'']" "[''t1'', ''t2'']"]
    short_identifier_aborts_batch
    [of "[[''MapIndex'', ''time''], [''001200051000'', ''t1''], [''001200051'', ''t2'']]"
        "[''001200051000'', ''001200051'']" "[''t1'', ''t2'']"]
  by (simp add: read_columns_def nth_err_def slice_def py_int_51)

section \<open>Coordinate Deriver\<close>

text \<open>
  C2. For a tile whose row and column fields parse to \<open>r\<close> and \<open>c\<close> (all fields of
  the batch being parsable), \<^verbatim>\<open>_generate_coordinates\<close> returns, and the corner
  values of the tile are \<open>r * 1000\<close>, \<open>(r + 1) * 1000\<close>, \<open>c * 1000\<close> and
  \<open>(c + 1) * 1000\<close> as the claim assigns them to SW, NW, NE and SE, each written in
  decimal and followed by \<open>.00\<close>: a string with exactly two fractional digits.
\<close>

theorem generate_coordinates_corners:
  assumes rs: "map_of md ''row_number'' = Some rs"
    and cs: "map_of md ''column_number'' = Some cs"
    and names: "map_of md ''file_name'' = Some names"
    and i: "i < length rs" "i < length cs"
    and r: "py_int (rs ! i) = Inr r"
    and c: "py_int (cs ! i) = Inr c"
    and ok: "\<forall>s\<in>set rs \<union> set cs. \<exists>n. py_int s = Inr n"
  shows "\<exists>md'. generate_coordinates md = Inr md'
     \<and> get_field md' ''WS_X'' i = Some (str_int (r * 1000) @ ''.00'')
     \<and> get_field md' ''WS_Y'' i = Some (str_int (c * 1000) @ ''.00'')
     \<and> get_field md' ''WN_X'' i = Some (str_int ((r + 1) * 1000) @ ''.00'')
     \<and> get_field md' ''WN_Y'' i = Some (str_int (c * 1000) @ ''.00'')
     \<and> get_field md' ''EN_X'' i = Some (str_int ((r + 1) * 1000) @ ''.00'')
     \<and> get_field md' ''EN_Y'' i = Some (str_int ((c + 1) * 1000) @ ''.00'')
     \<and> get_field md' ''ES_X'' i = Some (str_int (r * 1000) @ ''.00'')
     \<and> get_field md' ''ES_Y'' i = Some (str_int ((c + 1) * 1000) @ ''.00'')
     \<and> (\<forall>k\<in>set [''WS_X'', ''WS_Y'', ''WN_X'', ''WN_Y'', ''EN_X'', ''EN_Y'', ''ES_X'', ''ES_Y''].
           \<exists>v. get_field md' k i = Some v \<and> fraction_digits v = Some 2)"
proof -
  from ok have "\<forall>s\<in>set rs. \<exists>n. py_int s = Inr n" by blast
  from map_err_total [OF this] obtain row where row: "map_err py_int rs = Inr row" by blast
  from ok have "\<forall>s\<in>set cs. \<exists>n. py_int s = Inr n" by blast
  from map_err_total [OF this] obtain col where col: "map_err py_int cs = Inr col" by blast
  from map_err_Inr [OF row] i r have lr: "length row = length rs" and ri: "row ! i = r"
    by auto
  from map_err_Inr [OF col] i c have lc: "length col = length cs" and ci: "col ! i = c"
    by auto
  show ?thesis
    using rs cs names row col lr lc ri ci i
    by (simp add: generate_coordinates_def lookup_def get_field_def update_conv'
        fraction_digits_two)
qed

theorem generate_coordinates_corners_witness:
  "\<exists>md'. generate_coordinates
       [(''file_name'', [''001200034000'']), (''row_number'', [''0012'']), (''column_number'', [''34'']) ] = Inr md'
     \<and> get_field md' ''WS_X'' 0 = Some ''12000.00''
     \<and> get_field md' ''WS_Y'' 0 = Some ''34000.00''
     \<and> get_field md' ''WN_X'' 0 = Some ''13000.00''
     \<and> get_field md' ''WN_Y'' 0 = Some ''34000.00''
     \<and> get_field md' ''EN_X'' 0 = Some ''13000.00''
     \<and> get_field md' ''EN_Y'' 0 = Some ''35000.00''
     \<and> get_field md' ''ES_X'' 0 = Some ''12000.00''
     \<and> get_field md' ''ES_Y'' 0 = Some ''35000.00''"
  using generate_coordinates_corners
    [of "[(''file_name'', [''001200034000'']), (''row_number'', [''0012'']), (''column_number'', [''34''])]"
        "[''0012'']" "[''34'']" "[''001200034000'']" 0 12 34]
  by (simp add: py_int_0012 py_int_34 str_int_def str_nat.simps) blast

section \<open>Boundary Index\<close>




text \<open>
  C9. The Boundary Index is the set of the parsed (row, column) pairs: it is a function of
  the boundary table alone, and two tables with the same set of pairs (one may repeat
  pairs or order them differently) give the same index, without error.
\<close>

theorem boundary_index_idempotent:
  assumes "map_of bd ''row_number'' = Some rs" and "map_of bd ''column_number'' = Some cs"
    and "map_err py_int rs = Inr row" and "map_err py_int cs = Inr col"
    and "map_of bd' ''row_number'' = Some rs'" and "map_of bd' ''column_number'' = Some cs'"
    and "map_err py_int rs' = Inr row'" and "map_err py_int cs' = Inr col'"
    and "set (zip row col) = set (zip row' col')"
  shows "get_boundary_coordinates bd = Inr (set (zip row col))
       \<and> get_boundary_coordinates bd' = get_boundary_coordinates bd"
  using assms by (simp add: get_boundary_coordinates_def lookup_def)

theorem boundary_index_idempotent_witness:
  "get_boundary_coordinates
      [(''row_number'', [''0012'', ''0012'', ''0013'']), (''column_number'', [''51'', ''51'', ''51''])]
     = Inr {(12, 51), (13, 51)}
   \<and> get_boundary_coordinates
      [(''row_number'', [''0013'', ''0012'']), (''column_number'', [''51'', ''51''])]
     = get_boundary_coordinates
      [(''row_number'', [''0012'', ''0012'', ''0013'']), (''column_number'', [''51'', ''51'', ''51''])]"
  using boundary_index_idempotent
    [of "[(''row_number'', [''0012'', ''0012'', ''0013'']), (''column_number'', [''51'', ''51'', ''51''])]"
        "[''0012'', ''0012'', ''0013'']" "[''51'', ''51'', ''51'']" "[12, 12, 13]" "[51, 51, 51]"
        "[(''row_number'', [''0013'', ''0012'']), (''column_number'', [''51'', ''51''])]"
        "[''0013'', ''0012'']" "[''51'', ''51'']" "[13, 12]" "[51, 51]"]
  by (simp add: py_int_0012 py_int_0013 py_int_51 insert_commute)

section \<open>Adjacency Resolver: the cardinal directions\<close>

lemma map_err_zip:
  "map_err f rs = Inr row \<Longrightarrow> map_err g cs = Inr col \<Longrightarrow>
   map_err (\<lambda>(r, c). bind_err (f r) (\<lambda>r'. bind_err (g c) (\<lambda>c'. Inr (h r' c')))) (zip rs cs)
     = Inr (map (\<lambda>(r, c). h r c) (zip row col))"
proof (induction rs arbitrary: cs row col)
  case Nil
  then show ?case by simp
next
  case (Cons x xs)
  show ?case
  proof (cases cs)
    case Nil
    with Cons.prems show ?thesis by simp
  next
    case (Cons y ys)
    with Cons.prems Cons.IH show ?thesis
      by (auto split: sum.splits)
  qed
qed

lemma target_coord_parsed:
  assumes "map_of md ''row_number'' = Some rs" and "map_of md ''column_number'' = Some cs"
    and "map_err py_int rs = Inr row" and "map_err py_int cs = Inr col"
  shows "target_coord md d = Inr (map (\<lambda>(r, c). (r + fst d, c + snd d)) (zip row col))"
  using assms map_err_zip [of py_int rs row py_int cs col "\<lambda>r c. (r + fst d, c + snd d)"]
  by (simp add: target_coord_def lookup_def)

lemma target_coord_update:
  "k \<noteq> ''row_number'' \<Longrightarrow> k \<noteq> ''column_number'' \<Longrightarrow>
   target_coord (AList.update k v md) d = target_coord md d"
  by (simp add: target_coord_def lookup_def update_conv')

lemma process_directional_unfold:
  "process_directional_connections boundary md =
     bind_err (target_coord md (1, 0)) (\<lambda>tn.
     bind_err (target_coord md (- 1, 0)) (\<lambda>ts.
     bind_err (target_coord md (0, 1)) (\<lambda>te.
     bind_err (target_coord md (0, - 1)) (\<lambda>tw.
       Inr (AList.update ''filename_W'' (map (neighbour_of boundary) tw)
           (AList.update ''Link_W'' (map (link_of boundary) tw)
           (AList.update ''filename_E'' (map (neighbour_of boundary) te)
           (AList.update ''Link_E'' (map (link_of boundary) te)
           (AList.update ''filename_S'' (map (neighbour_of boundary) ts)
           (AList.update ''Link_S'' (map (link_of boundary) ts)
           (AList.update ''filename_N'' (map (neighbour_of boundary) tn)
           (AList.update ''Link_N'' (map (link_of boundary) tn) md))))))))))))"
  by (simp add: process_directional_connections_def directions_def directional_step_def
      target_coord_update bind_err_def split: sum.splits)

lemma process_diagonal_unfold:
  "process_diagonal_connections boundary md =
     bind_err (target_coord md (1, - 1)) (\<lambda>twn.
     bind_err (target_coord md (1, 1)) (\<lambda>ten.
     bind_err (target_coord md (- 1, - 1)) (\<lambda>tws.
     bind_err (target_coord md (- 1, 1)) (\<lambda>tes.
       Inr (AList.update ''filename_ES'' (map (neighbour_of boundary) tes)
           (AList.update ''filename_WS'' (map (neighbour_of boundary) tws)
           (AList.update ''filename_EN'' (map (neighbour_of boundary) ten)
           (AList.update ''filename_WN'' (map (neighbour_of boundary) twn) md))))))))"
  by (simp add: process_diagonal_connections_def diagonals_def diagonal_step_def
      target_coord_update bind_err_def split: sum.splits)

lemma connected_not_free: "connected \<noteq> free_edge"
  by (simp add: connected_def free_edge_def)

lemma generate_filename_not_none: "generate_filename r c \<noteq> no_file"
proof
  assume "generate_filename r c = no_file"
  then have "last (generate_filename r c) = last no_file" by simp
  then show False by (simp add: generate_filename_def no_file_def)
qed

lemma link_iff_neighbour:
  "link_of boundary coord = connected \<longleftrightarrow> neighbour_of boundary coord \<noteq> no_file"
  using connected_not_free generate_filename_not_none
  by (auto simp: link_of_def neighbour_of_def)

text \<open>The fields the cardinal pass has written when it returns.\<close>

lemma directional_fields:
  assumes run: "process_directional_connections boundary md = Inr md'"
    and d: "(dir, off) \<in> set directions"
  shows "\<exists>t. target_coord md off = Inr t
     \<and> map_of md' (''Link_'' @ dir) = Some (map (link_of boundary) t)
     \<and> map_of md' (''filename_'' @ dir) = Some (map (neighbour_of boundary) t)"
proof -
  from run obtain tn ts te tw where
    tn: "target_coord md (1, 0) = Inr tn" and ts: "target_coord md (- 1, 0) = Inr ts"
    and te: "target_coord md (0, 1) = Inr te" and tw: "target_coord md (0, - 1) = Inr tw"
    and md': "md' = AList.update ''filename_W'' (map (neighbour_of boundary) tw)
           (AList.update ''Link_W'' (map (link_of boundary) tw)
           (AList.update ''filename_E'' (map (neighbour_of boundary) te)
           (AList.update ''Link_E'' (map (link_of boundary) te)
           (AList.update ''filename_S'' (map (neighbour_of boundary) ts)
           (AList.update ''Link_S'' (map (link_of boundary) ts)
           (AList.update ''filename_N'' (map (neighbour_of boundary) tn)
           (AList.update ''Link_N'' (map (link_of boundary) tn) md)))))))"
    unfolding process_directional_unfold bind_err_eq_Inr by blast
  from d consider "dir = ''N''" "off = (1, 0)" | "dir = ''S''" "off = (- 1, 0)"
    | "dir = ''E''" "off = (0, 1)" | "dir = ''W''" "off = (0, - 1)"
    by (auto simp: directions_def)
  then show ?thesis
  proof cases
    case 1 then show ?thesis using tn by (simp add: md' update_conv')
  next
    case 2 then show ?thesis using ts by (simp add: md' update_conv')
  next
    case 3 then show ?thesis using te by (simp add: md' update_conv')
  next
    case 4 then show ?thesis using tw by (simp add: md' update_conv')
  qed
qed




lemma directional_example:
  "process_directional_connections {(13, 51)}
      [(''row_number'', [''0012'']), (''column_number'', [''51''])] =
   Inr [(''row_number'', [''0012'']), (''column_number'', [''51'']),
        (''Link_N'', [connected]), (''filename_N'', [''13.0-51.0'']),
        (''Link_S'', [free_edge]), (''filename_S'', [no_file]),
        (''Link_E'', [free_edge]), (''filename_E'', [no_file]),
        (''Link_W'', [free_edge]), (''filename_W'', [no_file])]"
  by (simp add: process_directional_unfold target_coord_def lookup_def py_int_0012 py_int_51
      link_of_def neighbour_of_def generate_filename_def str_int_def str_nat.simps)

text \<open>
  C10. After the cardinal pass, for every cardinal direction the link-status field and
  the neighbour-filename field are both present, have the same length, and agree at every
  index: the link status is "connected" exactly when the file name is not "none".
\<close>

theorem link_filename_agree:
  assumes run: "process_directional_connections boundary md = Inr md'"
    and d: "(dir, off) \<in> set directions"
  shows "\<exists>links names.
       map_of md' (''Link_'' @ dir) = Some links
     \<and> map_of md' (''filename_'' @ dir) = Some names
     \<and> length links = length names
     \<and> (\<forall>i<length links. links ! i = connected \<longleftrightarrow> names ! i \<noteq> no_file)"
proof -
  from directional_fields [OF run d] obtain t where
    "map_of md' (''Link_'' @ dir) = Some (map (link_of boundary) t)"
    "map_of md' (''filename_'' @ dir) = Some (map (neighbour_of boundary) t)" by blast
  then show ?thesis by (simp add: link_iff_neighbour)
qed

theorem link_filename_agree_witness:
  "\<exists>md'. process_directional_connections {(13, 51)}
            [(''row_number'', [''0012'']), (''column_number'', [''51''])] = Inr md'
     \<and> map_of md' ''Link_N'' = Some [connected]
     \<and> map_of md' ''filename_N'' = Some [''13.0-51.0'']
     \<and> ''13.0-51.0'' \<noteq> no_file
     \<and> map_of md' ''Link_S'' = Some [free_edge]
     \<and> map_of md' ''filename_S'' = Some [no_file]
     \<and> free_edge \<noteq> connected"
  using link_filename_agree [OF directional_example, of "''N''" "(1, 0)"]
    link_filename_agree [OF directional_example, of "''S''" "(- 1, 0)"]
  by (simp add: directions_def directional_example)

section \<open>The derivation steps in sequence\<close>

lemma lengths_update:
  "length v = n \<Longrightarrow> \<forall>kv\<in>set al. length (snd kv) = n \<Longrightarrow>
   \<forall>kv\<in>set (AList.update k v al). length (snd kv) = n"
  by (induction al) auto

lemma names_distinct: "length names \<noteq> card (set names) \<longleftrightarrow> \<not> distinct names"
  by (metis card_distinct distinct_card)

lemma validate_unfold:
  assumes len: "\<forall>kv\<in>set md. length (snd kv) = n"
    and names: "map_of md ''file_name'' = Some names"
  shows "validate_data_consistency md = (if distinct names then Inr () else Inl DuplicateIdentifier)"
proof -
  from len have "set (map (\<lambda>(k, v). length v) md) \<subseteq> {n}" by auto
  then have "card (set (map (\<lambda>(k, v). length v) md)) \<le> card {n}"
    by (intro card_mono) simp_all
  then have small: "\<not> 1 < card (set (map (\<lambda>(k, v). length v) md))" by simp
  show ?thesis using small names names_distinct [of names]
    by (simp add: validate_data_consistency_def lookup_def)
qed

lemma derive_fields_explicit:
  assumes names: "map_of (metadata_data p) ''file_name'' = Some names"
    and rs: "map_of (metadata_data p) ''row_number'' = Some rs"
    and cs: "map_of (metadata_data p) ''column_number'' = Some cs"
    and row: "map_err py_int rs = Inr row" and col: "map_err py_int cs = Inr col"
    and bd: "get_boundary_coordinates (boundary_data p) = Inr boundary"
    and T: "\<And>d. T d = map (\<lambda>(r, c). (r + fst d, c + snd d)) (zip row col)"
  shows "derive_fields probe p = Inr
     (AList.update ''filename_ES'' (map (neighbour_of boundary) (T (- 1, 1)))
     (AList.update ''filename_WS'' (map (neighbour_of boundary) (T (- 1, - 1)))
     (AList.update ''filename_EN'' (map (neighbour_of boundary) (T (1, 1)))
     (AList.update ''filename_WN'' (map (neighbour_of boundary) (T (1, - 1)))
     (AList.update ''filename_W'' (map (neighbour_of boundary) (T (0, - 1)))
     (AList.update ''Link_W'' (map (link_of boundary) (T (0, - 1)))
     (AList.update ''filename_E'' (map (neighbour_of boundary) (T (0, 1)))
     (AList.update ''Link_E'' (map (link_of boundary) (T (0, 1)))
     (AList.update ''filename_S'' (map (neighbour_of boundary) (T (- 1, 0)))
     (AList.update ''Link_S'' (map (link_of boundary) (T (- 1, 0)))
     (AList.update ''filename_N'' (map (neighbour_of boundary) (T (1, 0)))
     (AList.update ''Link_N'' (map (link_of boundary) (T (1, 0)))
     (AList.update ''filename'' (map (\<lambda>name. title_prefix @ name) names)
     (AList.update ''ES_Y'' (map (\<lambda>c. str_int ((c + 1) * 1000) @ ''.00'') col)
     (AList.update ''ES_X'' (map (\<lambda>r. str_int (r * 1000) @ ''.00'') row)
     (AList.update ''EN_Y'' (map (\<lambda>c. str_int ((c + 1) * 1000) @ ''.00'') col)
     (AList.update ''EN_X'' (map (\<lambda>r. str_int ((r + 1) * 1000) @ ''.00'') row)
     (AList.update ''WN_Y'' (map (\<lambda>c. str_int (c * 1000) @ ''.00'') col)
     (AList.update ''WN_X'' (map (\<lambda>r. str_int ((r + 1) * 1000) @ ''.00'') row)
     (AList.update ''WS_Y'' (map (\<lambda>c. str_int (c * 1000) @ ''.00'') col)
     (AList.update ''WS_X'' (map (\<lambda>r. str_int (r * 1000) @ ''.00'') row)
     (AList.update ''tif_size''
        (map (\<lambda>name. case probe name of Some size_mb \<Rightarrow> size_mb | None \<Rightarrow> data_missing) names)
        (metadata_data p)))))))))))))))))))))))"
proof -
  define md1 where "md1 = AList.update ''tif_size''
        (map (\<lambda>name. case probe name of Some size_mb \<Rightarrow> size_mb | None \<Rightarrow> data_missing) names)
        (metadata_data p)"
  have s1: "add_tif_sizes probe (metadata_data p) = Inr md1"
    by (simp add: add_tif_sizes_def lookup_def names md1_def)
  have m1: "map_of md1 ''file_name'' = Some names" "map_of md1 ''row_number'' = Some rs"
    "map_of md1 ''column_number'' = Some cs"
    by (simp_all add: md1_def update_conv' names rs cs)
  define md2 where "md2 =
     AList.update ''filename'' (map (\<lambda>name. title_prefix @ name) names)
     (AList.update ''ES_Y'' (map (\<lambda>c. str_int ((c + 1) * 1000) @ ''.00'') col)
     (AList.update ''ES_X'' (map (\<lambda>r. str_int (r * 1000) @ ''.00'') row)
     (AList.update ''EN_Y'' (map (\<lambda>c. str_int ((c + 1) * 1000) @ ''.00'') col)
     (AList.update ''EN_X'' (map (\<lambda>r. str_int ((r + 1) * 1000) @ ''.00'') row)
     (AList.update ''WN_Y'' (map (\<lambda>c. str_int (c * 1000) @ ''.00'') col)
     (AList.update ''WN_X'' (map (\<lambda>r. str_int ((r + 1) * 1000) @ ''.00'') row)
     (AList.update ''WS_Y'' (map (\<lambda>c. str_int (c * 1000) @ ''.00'') col)
     (AList.update ''WS_X'' (map (\<lambda>r. str_int (r * 1000) @ ''.00'') row) md1))))))))"
  have s2: "generate_coordinates md1 = Inr md2"
    by (simp add: generate_coordinates_def lookup_def m1 row col md2_def)
  have m2: "map_of md2 ''row_number'' = Some rs" "map_of md2 ''column_number'' = Some cs"
    by (simp_all add: md2_def update_conv' m1)
  have tc2: "target_coord md2 d = Inr (T d)" for d
    using target_coord_parsed [OF m2 row col, of d] T [of d] by simp
  define md3 where "md3 =
     AList.update ''filename_W'' (map (neighbour_of boundary) (T (0, - 1)))
     (AList.update ''Link_W'' (map (link_of boundary) (T (0, - 1)))
     (AList.update ''filename_E'' (map (neighbour_of boundary) (T (0, 1)))
     (AList.update ''Link_E'' (map (link_of boundary) (T (0, 1)))
     (AList.update ''filename_S'' (map (neighbour_of boundary) (T (- 1, 0)))
     (AList.update ''Link_S'' (map (link_of boundary) (T (- 1, 0)))
     (AList.update ''filename_N'' (map (neighbour_of boundary) (T (1, 0)))
     (AList.update ''Link_N'' (map (link_of boundary) (T (1, 0))) md2)))))))"
  have s3: "process_directional_connections boundary md2 = Inr md3"
    by (simp add: process_directional_unfold tc2 md3_def)
  have tc3: "target_coord md3 d = Inr (T d)" for d
    by (simp add: md3_def target_coord_update tc2)
  have s4: "process_diagonal_connections boundary md3 = Inr
     (AList.update ''filename_ES'' (map (neighbour_of boundary) (T (- 1, 1)))
     (AList.update ''filename_WS'' (map (neighbour_of boundary) (T (- 1, - 1)))
     (AList.update ''filename_EN'' (map (neighbour_of boundary) (T (1, 1)))
     (AList.update ''filename_WN'' (map (neighbour_of boundary) (T (1, - 1))) md3))))"
    by (simp add: process_diagonal_unfold tc3)
  have "derive_fields probe p = Inr
     (AList.update ''filename_ES'' (map (neighbour_of boundary) (T (- 1, 1)))
     (AList.update ''filename_WS'' (map (neighbour_of boundary) (T (- 1, - 1)))
     (AList.update ''filename_EN'' (map (neighbour_of boundary) (T (1, 1)))
     (AList.update ''filename_WN'' (map (neighbour_of boundary) (T (1, - 1))) md3))))"
    unfolding derive_fields_def s1 bind_err_Inr s2 process_boundary_connections_def bd s3 s4 ..
  then show ?thesis unfolding md3_def md2_def md1_def .
qed

lemma extract_metadata_loaded:
  assumes load: "extract_metadata map_index time_vals = Inr md"
  shows "\<exists>bands. map_err (\<lambda>s. py_int (slice 7 9 s)) map_index = Inr bands
     \<and> md = [(''file_name'', map_index),
             (''row_number'', map (slice 0 4) map_index),
             (''column_number'', map (slice 7 12) map_index),
             (''band_number'', map (\<lambda>b. str_int b @ degree_sign) bands),
             (''central_meridian'', map (\<lambda>v. str_int (v * 3) @ degree_sign) bands),
             (''flight_times'', time_vals)]"
  using load by (auto simp: extract_metadata_unfold split: sum.splits)

lemma derive_fields_shape:
  assumes names: "map_of (metadata_data p) ''file_name'' = Some names"
    and rs: "map_of (metadata_data p) ''row_number'' = Some rs"
    and cs: "map_of (metadata_data p) ''column_number'' = Some cs"
    and row: "map_err py_int rs = Inr row" and col: "map_err py_int cs = Inr col"
    and bd: "get_boundary_coordinates (boundary_data p) = Inr boundary"
    and T: "\<And>d. T d = map (\<lambda>(r, c). (r + fst d, c + snd d)) (zip row col)"
  shows "\<exists>md'. derive_fields probe p = Inr md'
     \<and> map_of md' ''file_name'' = Some names
     \<and> (\<forall>code\<in>set [''WN'', ''EN'', ''WS'', ''ES''].
           map_of md' (''Link_'' @ code) = map_of (metadata_data p) (''Link_'' @ code))
     \<and> (\<forall>(code, d)\<in>set diagonals.
           map_of md' (''filename_'' @ code) = Some (map (neighbour_of boundary) (T d)))
     \<and> (\<forall>(dir, d)\<in>set directions.
           map_of md' (''Link_'' @ dir) = Some (map (link_of boundary) (T d))
         \<and> map_of md' (''filename_'' @ dir) = Some (map (neighbour_of boundary) (T d)))
     \<and> ((\<forall>kv\<in>set (metadata_data p). length (snd kv) = n) \<longrightarrow> length names = n \<longrightarrow>
          length rs = n \<longrightarrow> length cs = n \<longrightarrow> (\<forall>kv\<in>set md'. length (snd kv) = n))"
proof (intro exI conjI impI)
  show "derive_fields probe p = Inr
     (AList.update ''filename_ES'' (map (neighbour_of boundary) (T (- 1, 1)))
     (AList.update ''filename_WS'' (map (neighbour_of boundary) (T (- 1, - 1)))
     (AList.update ''filename_EN'' (map (neighbour_of boundary) (T (1, 1)))
     (AList.update ''filename_WN'' (map (neighbour_of boundary) (T (1, - 1)))
     (AList.update ''filename_W'' (map (neighbour_of boundary) (T (0, - 1)))
     (AList.update ''Link_W'' (map (link_of boundary) (T (0, - 1)))
     (AList.update ''filename_E'' (map (neighbour_of boundary) (T (0, 1)))
     (AList.update ''Link_E'' (map (link_of boundary) (T (0, 1)))
     (AList.update ''filename_S'' (map (neighbour_of boundary) (T (- 1, 0)))
     (AList.update ''Link_S'' (map (link_of boundary) (T (- 1, 0)))
     (AList.update ''filename_N'' (map (neighbour_of boundary) (T (1, 0)))
     (AList.update ''Link_N'' (map (link_of boundary) (T (1, 0)))
     (AList.update ''filename'' (map (\<lambda>name. title_prefix @ name) names)
     (AList.update ''ES_Y'' (map (\<lambda>c. str_int ((c + 1) * 1000) @ ''.00'') col)
     (AList.update ''ES_X'' (map (\<lambda>r. str_int (r * 1000) @ ''.00'') row)
     (AList.update ''EN_Y'' (map (\<lambda>c. str_int ((c + 1) * 1000) @ ''.00'') col)
     (AList.update ''EN_X'' (map (\<lambda>r. str_int ((r + 1) * 1000) @ ''.00'') row)
     (AList.update ''WN_Y'' (map (\<lambda>c. str_int (c * 1000) @ ''.00'') col)
     (AList.update ''WN_X'' (map (\<lambda>r. str_int ((r + 1) * 1000) @ ''.00'') row)
     (AList.update ''WS_Y'' (map (\<lambda>c. str_int (c * 1000) @ ''.00'') col)
     (AList.update ''WS_X'' (map (\<lambda>r. str_int (r * 1000) @ ''.00'') row)
     (AList.update ''tif_size''
        (map (\<lambda>name. case probe name of Some size_mb \<Rightarrow> size_mb | None \<Rightarrow> data_missing) names)
        (metadata_data p)))))))))))))))))))))))"
    (is "_ = Inr ?md'")
    by (rule derive_fields_explicit [OF names rs cs row col bd T])
  show "map_of ?md' ''file_name'' = Some names"
    by (simp add: update_conv' names)
  show "\<forall>code\<in>set [''WN'', ''EN'', ''WS'', ''ES''].
           map_of ?md' (''Link_'' @ code) = map_of (metadata_data p) (''Link_'' @ code)"
    by (simp add: update_conv')
  show "\<forall>(code, d)\<in>set diagonals.
           map_of ?md' (''filename_'' @ code) = Some (map (neighbour_of boundary) (T d))"
    by (simp add: diagonals_def update_conv')
  show "\<forall>(dir, d)\<in>set directions.
           map_of ?md' (''Link_'' @ dir) = Some (map (link_of boundary) (T d))
         \<and> map_of ?md' (''filename_'' @ dir) = Some (map (neighbour_of boundary) (T d))"
    by (simp add: directions_def update_conv')
  assume len: "\<forall>kv\<in>set (metadata_data p). length (snd kv) = n"
    and ln: "length names = n" and lr: "length rs = n" and lc: "length cs = n"
  from map_err_Inr [OF row] lr have lrow: "length row = n" by simp
  from map_err_Inr [OF col] lc have lcol: "length col = n" by simp
  have lT: "length (T d) = n" for d by (simp add: T lrow lcol)
  show "\<forall>kv\<in>set ?md'. length (snd kv) = n"
    by (intro lengths_update len) (simp_all add: lT lrow lcol ln)
qed

lemma loaded_grid_fields:
  assumes load: "extract_metadata map_index time_vals = Inr md"
    and ok: "\<forall>s\<in>set map_index. (\<exists>n. py_int (slice 0 4 s) = Inr n) \<and> (\<exists>n. py_int (slice 7 12 s) = Inr n)"
  shows "\<exists>row col.
       map_of md ''file_name'' = Some map_index
     \<and> map_of md ''row_number'' = Some (map (slice 0 4) map_index)
     \<and> map_of md ''column_number'' = Some (map (slice 7 12) map_index)
     \<and> map_err py_int (map (slice 0 4) map_index) = Inr row
     \<and> map_err py_int (map (slice 7 12) map_index) = Inr col
     \<and> length row = length map_index \<and> length col = length map_index
     \<and> (\<forall>i<length map_index. py_int (slice 0 4 (map_index ! i)) = Inr (row ! i)
            \<and> py_int (slice 7 12 (map_index ! i)) = Inr (col ! i))
     \<and> (\<forall>k. k \<notin> set [''file_name'', ''row_number'', ''column_number'', ''band_number'',
                      ''central_meridian'', ''flight_times''] \<longrightarrow> map_of md k = None)
     \<and> (length time_vals = length map_index \<longrightarrow> (\<forall>kv\<in>set md. length (snd kv) = length map_index))"
proof -
  from extract_metadata_loaded [OF load] obtain bands
    where bands: "map_err (\<lambda>s. py_int (slice 7 9 s)) map_index = Inr bands"
      and md: "md = [(''file_name'', map_index),
             (''row_number'', map (slice 0 4) map_index),
             (''column_number'', map (slice 7 12) map_index),
             (''band_number'', map (\<lambda>b. str_int b @ degree_sign) bands),
             (''central_meridian'', map (\<lambda>v. str_int (v * 3) @ degree_sign) bands),
             (''flight_times'', time_vals)]" by blast
  from map_err_Inr [OF bands] have lb: "length bands = length map_index" by simp
  from ok have "\<forall>s\<in>set map_index. \<exists>n. py_int (slice 0 4 s) = Inr n" by blast
  from map_err_total [OF this] obtain row
    where row: "map_err (\<lambda>s. py_int (slice 0 4 s)) map_index = Inr row" by blast
  from ok have "\<forall>s\<in>set map_index. \<exists>n. py_int (slice 7 12 s) = Inr n" by blast
  from map_err_total [OF this] obtain col
    where col: "map_err (\<lambda>s. py_int (slice 7 12 s)) map_index = Inr col" by blast
  note r = map_err_Inr [OF row] and c = map_err_Inr [OF col]
  show ?thesis
  proof (intro exI conjI allI impI)
    show "map_err py_int (map (slice 0 4) map_index) = Inr row" by (simp add: map_err_map row)
    show "map_err py_int (map (slice 7 12) map_index) = Inr col" by (simp add: map_err_map col)
    show "length row = length map_index" using r by simp
    show "length col = length map_index" using c by simp
    show "py_int (slice 0 4 (map_index ! i)) = Inr (row ! i)" if "i < length map_index" for i
      using r that by simp
    show "py_int (slice 7 12 (map_index ! i)) = Inr (col ! i)" if "i < length map_index" for i
      using c that by simp
    show "\<forall>kv\<in>set md. length (snd kv) = length map_index"
      if "length time_vals = length map_index" using that lb by (simp add: md)
  qed (simp_all add: md)
qed

lemma derive_fields_loaded:
  assumes load: "extract_metadata map_index time_vals = Inr (metadata_data p)"
    and len: "length time_vals = length map_index"
    and bd: "get_boundary_coordinates (boundary_data p) = Inr boundary"
    and ok: "\<forall>s\<in>set map_index. (\<exists>n. py_int (slice 0 4 s) = Inr n) \<and> (\<exists>n. py_int (slice 7 12 s) = Inr n)"
  shows "\<exists>md. derive_fields probe p = Inr md
     \<and> map_of md ''file_name'' = Some map_index
     \<and> (\<forall>kv\<in>set md. length (snd kv) = length map_index)"
proof -
  from loaded_grid_fields [OF load ok] len obtain row col where
    names: "map_of (metadata_data p) ''file_name'' = Some map_index"
    and rs: "map_of (metadata_data p) ''row_number'' = Some (map (slice 0 4) map_index)"
    and cs: "map_of (metadata_data p) ''column_number'' = Some (map (slice 7 12) map_index)"
    and row: "map_err py_int (map (slice 0 4) map_index) = Inr row"
    and col: "map_err py_int (map (slice 7 12) map_index) = Inr col"
    and lens: "\<forall>kv\<in>set (metadata_data p). length (snd kv) = length map_index"
    by blast
  from derive_fields_shape [OF names rs cs row col bd refl, of probe "length map_index"] lens
  show ?thesis by auto
qed

lemma derive_fields_validate:
  assumes load: "extract_metadata map_index time_vals = Inr (metadata_data p)"
    and len: "length time_vals = length map_index"
    and bd: "get_boundary_coordinates (boundary_data p) = Inr boundary"
    and ok: "\<forall>s\<in>set map_index. (\<exists>n. py_int (slice 0 4 s) = Inr n) \<and> (\<exists>n. py_int (slice 7 12 s) = Inr n)"
  shows "\<exists>md. derive_fields probe p = Inr md
     \<and> validate_data_consistency md =
         (if distinct map_index then Inr () else Inl DuplicateIdentifier)"
proof -
  from derive_fields_loaded [OF load len bd ok, of probe]
  obtain md where run: "derive_fields probe p = Inr md"
    and fn: "map_of md ''file_name'' = Some map_index"
    and l: "\<forall>kv\<in>set md. length (snd kv) = length map_index"
    by blast
  from validate_unfold [OF l fn] run show ?thesis by blast
qed

text \<open>Writing one tile: with the template at hand and every field long enough, the
  copy of the template at the output path is filled in and saved.\<close>

lemma current_data_total:
  assumes "\<forall>kv\<in>set md. idx < length (snd kv)"
  shows "\<exists>cur. current_data md idx = Inr cur"
  unfolding current_data_def
  by (rule map_err_total) (use assms in \<open>auto simp: nth_err_def\<close>)

lemma generate_single_file_written:
  assumes template: "map_of (files fs) (template_path p) = Some t"
    and fmt: "output_format p = ''.xlsx''"
    and lens: "\<forall>kv\<in>set (metadata_data p). idx < length (snd kv)"
  shows "\<exists>wb. generate_single_file p idx orig_name output_dir fs =
     (None, fs\<lparr>files := AList.update (path_join output_dir (safe_name orig_name @ ''.xlsx'')) wb
                           (files fs)\<rparr>)"
proof -
  from current_data_total [OF lens] obtain cur
    where "current_data (metadata_data p) idx = Inr cur" by blast
  then show ?thesis
    by (intro exI [of _ "write_cells cur t"]) (simp add: generate_single_file_def template fmt)
qed

lemma safe_name_trailing_space: "safe_name ''001200051000 '' = safe_name ''001200051000''"
  by (simp add: safe_name_def unsafe_chars_def trim_def strip_space_def)

lemma safe_name_plain: "safe_name ''001200051000'' = ''001200051000''"
  by (simp add: safe_name_def unsafe_chars_def trim_def strip_space_def)

lemma upt_two: "[0..<2] = [0, Suc 0]"
  by (simp add: numeral_2_eq_2)

lemma py_int_51001: "py_int ''51001'' = Inr 51001"
  by (simp add: py_int_def trim_def int_space_def is_digit_def digit_val_def)

section \<open>Adjacency Resolver: the diagonal directions\<close>



section \<open>Record Validator: duplicate output names\<close>

text \<open>
  C4. \<^verbatim>\<open>_validate_data_consistency\<close> compares the identifiers as they were read,
  not the output names \<^verbatim>\<open>_generate_single_file\<close> makes of them: for a target table as
  loaded, the derivation steps return and the validator accepts the result exactly when
  the raw identifiers are pairwise distinct. Two distinct identifiers with the same
  output name therefore pass the validation.
\<close>

theorem validation_checks_raw_identifiers:
  assumes load: "extract_metadata map_index time_vals = Inr (metadata_data p)"
    and len: "length time_vals = length map_index"
    and bd: "get_boundary_coordinates (boundary_data p) = Inr boundary"
    and ok: "\<forall>s\<in>set map_index. (\<exists>n. py_int (slice 0 4 s) = Inr n) \<and> (\<exists>n. py_int (slice 7 12 s) = Inr n)"
  shows "\<exists>md. derive_fields probe p = Inr md
     \<and> validate_data_consistency md =
         (if distinct map_index then Inr () else Inl DuplicateIdentifier)"
  using assms by (rule derive_fields_validate)

theorem validation_checks_raw_identifiers_witness:
  "\<exists>md wb.
       derive_fields (\<lambda>name. None)
         \<lparr>template_path = ''template.xlsx'',
        boundary_data = [(''row_number'', [''0013'']), (''column_number'', [''51001''])],
        metadata_data =
          [(''file_name'', [''001200051000'', ''001200051000 '']),
           (''row_number'', [''0012'', ''0012'']),
           (''column_number'', [''51000'', ''51000'']),
           (''band_number'', [''51'' @ degree_sign, ''51'' @ degree_sign]),
           (''central_meridian'', [''153'' @ degree_sign, ''153'' @ degree_sign]),
           (''flight_times'', [''t1'', ''t2''])],
        output_format = ''.xlsx''\<rparr> = Inr md
     \<and> validate_data_consistency md = Inr ()
     \<and> safe_name ''001200051000'' = ''001200051000''
     \<and> safe_name ''001200051000 '' = ''001200051000''
     \<and> generate_metadata
         \<lparr>template_path = ''template.xlsx'',
        boundary_data = [(''row_number'', [''0013'']), (''column_number'', [''51001''])],
        metadata_data =
          [(''file_name'', [''001200051000'', ''001200051000 '']),
           (''row_number'', [''0012'', ''0012'']),
           (''column_number'', [''51000'', ''51000'']),
           (''band_number'', [''51'' @ degree_sign, ''51'' @ degree_sign]),
           (''central_meridian'', [''153'' @ degree_sign, ''153'' @ degree_sign]),
           (''flight_times'', [''t1'', ''t2''])],
        output_format = ''.xlsx''\<rparr>
         (\<lambda>name. None) ''out'' \<lparr>dirs = [], files = [(''template.xlsx'', [])]\<rparr>
       = (None, \<lparr>dirs = [''out''],
                 files = [(''template.xlsx'', []), (''out/001200051000.xlsx'', wb)]\<rparr>)"
proof -
  let ?p = "\<lparr>template_path = ''template.xlsx'',
        boundary_data = [(''row_number'', [''0013'']), (''column_number'', [''51001''])],
        metadata_data =
          [(''file_name'', [''001200051000'', ''001200051000 '']),
           (''row_number'', [''0012'', ''0012'']),
           (''column_number'', [''51000'', ''51000'']),
           (''band_number'', [''51'' @ degree_sign, ''51'' @ degree_sign]),
           (''central_meridian'', [''153'' @ degree_sign, ''153'' @ degree_sign]),
           (''flight_times'', [''t1'', ''t2''])],
        output_format = ''.xlsx''\<rparr>"
  let ?fs1 = "\<lparr>dirs = [''out''], files = [(''template.xlsx'', [])]\<rparr>"
  have "\<exists>md. derive_fields (\<lambda>name. None) ?p = Inr md
     \<and> map_of md ''file_name'' = Some [''001200051000'', ''001200051000 '']
     \<and> (\<forall>kv\<in>set md. length (snd kv) = length [''001200051000'', ''001200051000 ''])"
    using derive_fields_loaded
      [of "[''001200051000'', ''001200051000 '']" "[''t1'', ''t2'']" ?p "{(13, 51001)}" "\<lambda>name. None"]
    by (simp add: extract_metadata_unfold slice_def py_int_51 py_int_0012 py_int_51000
        py_int_0013 py_int_51001 str_int_def str_nat.simps get_boundary_coordinates_def lookup_def)
  then obtain md where run: "derive_fields (\<lambda>name. None) ?p = Inr md"
    and fn: "map_of md ''file_name'' = Some [''001200051000'', ''001200051000 '']"
    and l: "\<forall>kv\<in>set md. length (snd kv) = length [''001200051000'', ''001200051000 '']"
    by blast
  let ?q = "?p\<lparr>metadata_data := md\<rparr>"
  have val: "validate_data_consistency md = Inr ()"
    using validation_checks_raw_identifiers
      [of "[''001200051000'', ''001200051000 '']" "[''t1'', ''t2'']" ?p "{(13, 51001)}" "\<lambda>name. None"]
      run
    by (simp add: extract_metadata_unfold slice_def py_int_51 py_int_0012 py_int_51000
        py_int_0013 py_int_51001 str_int_def str_nat.simps get_boundary_coordinates_def lookup_def)
  from l have l0: "\<forall>kv\<in>set (metadata_data ?q). 0 < length (snd kv)"
    and l1: "\<forall>kv\<in>set (metadata_data ?q). Suc 0 < length (snd kv)" by simp_all
  from generate_single_file_written [of ?fs1 ?q "[]" 0 "''001200051000''" "''out''", OF _ _ l0]
  obtain wb1 where w1: "generate_single_file ?q 0 ''001200051000'' ''out'' ?fs1 =
      (None, \<lparr>dirs = [''out''],
              files = [(''template.xlsx'', []), (''out/001200051000.xlsx'', wb1)]\<rparr>)"
    by (auto simp: safe_name_plain path_join_def)
  from generate_single_file_written
    [of "\<lparr>dirs = [''out''],
              files = [(''template.xlsx'', []), (''out/001200051000.xlsx'', wb1)]\<rparr>"
        ?q "[]" "Suc 0" "''001200051000 ''" "''out''", OF _ _ l1]
  obtain wb2 where w2: "generate_single_file ?q (Suc 0) ''001200051000 '' ''out''
       \<lparr>dirs = [''out''],
              files = [(''template.xlsx'', []), (''out/001200051000.xlsx'', wb1)]\<rparr> =
      (None, \<lparr>dirs = [''out''],
              files = [(''template.xlsx'', []), (''out/001200051000.xlsx'', wb2)]\<rparr>)"
    by (auto simp: safe_name_trailing_space safe_name_plain path_join_def)
  have "generate_metadata ?p (\<lambda>name. None) ''out'' \<lparr>dirs = [], files = [(''template.xlsx'', [])]\<rparr>
     = (None, \<lparr>dirs = [''out''],
               files = [(''template.xlsx'', []), (''out/001200051000.xlsx'', wb2)]\<rparr>)"
    using run val fn w1 w2
    by (simp add: generate_metadata_def generate_output_def lookup_def upt_two)
  with run val show ?thesis
    by (simp add: safe_name_trailing_space safe_name_plain)
qed

section \<open>Validation before output\<close>

text \<open>
  C6. \<^verbatim>\<open>generate_metadata\<close> validates once, after the derivation steps and before
  the output directory is made: when the validator raises, the run ends with that error
  and the file system is the one it started with.
\<close>

theorem validation_gate:
  assumes "derive_fields probe p = Inr md"
    and "validate_data_consistency md = Inl e"
  shows "generate_metadata p probe output_dir fs = (Some e, fs)"
  using assms by (simp add: generate_metadata_def generate_output_def)

theorem validation_gate_witness:
  "generate_metadata
       \<lparr>template_path = ''template.xlsx'',
        boundary_data = [(''row_number'', [''0013'']), (''column_number'', [''34''])],
        metadata_data =
          [(''file_name'', [''001200051000'', ''001200051000'']),
           (''row_number'', [''0012'', ''0012'']),
           (''column_number'', [''51000'', ''51000'']),
           (''band_number'', [''51'' @ degree_sign, ''51'' @ degree_sign]),
           (''central_meridian'', [''153'' @ degree_sign, ''153'' @ degree_sign]),
           (''flight_times'', [''t1'', ''t2''])],
        output_format = ''.xlsx''\<rparr>
       (\<lambda>name. None) ''out'' \<lparr>dirs = [], files = [(''template.xlsx'', [])]\<rparr>
     = (Some DuplicateIdentifier, \<lparr>dirs = [], files = [(''template.xlsx'', [])]\<rparr>)"
proof -
  let ?p = "\<lparr>template_path = ''template.xlsx'',
        boundary_data = [(''row_number'', [''0013'']), (''column_number'', [''34''])],
        metadata_data =
          [(''file_name'', [''001200051000'', ''001200051000'']),
           (''row_number'', [''0012'', ''0012'']),
           (''column_number'', [''51000'', ''51000'']),
           (''band_number'', [''51'' @ degree_sign, ''51'' @ degree_sign]),
           (''central_meridian'', [''153'' @ degree_sign, ''153'' @ degree_sign]),
           (''flight_times'', [''t1'', ''t2''])],
        output_format = ''.xlsx''\<rparr>"
  have "\<exists>md. derive_fields (\<lambda>name. None) ?p = Inr md
     \<and> validate_data_consistency md = Inl DuplicateIdentifier"
    using derive_fields_validate
      [of "[''001200051000'', ''001200051000'']" "[''t1'', ''t2'']" ?p "{(13, 34)}" "\<lambda>name. None"]
    by (simp add: extract_metadata_unfold slice_def py_int_51 py_int_0012 py_int_51000
        py_int_0013 py_int_34 str_int_def str_nat.simps get_boundary_coordinates_def lookup_def)
  then obtain md where run: "derive_fields (\<lambda>name. None) ?p = Inr md"
    and val: "validate_data_consistency md = Inl DuplicateIdentifier" by blast
  from validation_gate [OF run val] show ?thesis .
qed

end
